theory Spec2Isabelle
  imports Main
begin

section \<open>JavaScript values, exceptions and promises\<close>

text \<open>
  The client in \<^verbatim>\<open>models/Nas.js\<close> reads JSON bodies that the HTTP library has parsed.
  A body is an arbitrary JavaScript value; numbers are the integers that occur here
  (status codes, versions, error codes). An object is the list of its own members, the
  first binding of a key being the member.
\<close>

datatype jsval =
    JUndefined
  | JNull
  | JBool bool
  | JNum int
  | JStr string
  | JArr "jsval list"
  | JObj "(string \<times> jsval) list"

text \<open>What a promise is rejected with: an exception thrown in a callback, or the
  error of the transport.\<close>

datatype reason = TypeError | TransportError string

datatype 'a promise = Fulfilled 'a | Rejected reason

text \<open>The members this program reads from a response body.\<close>

datatype field = fld_success | fld_data | fld_error | fld_code | fld_sid | fld_tasks

fun field_name :: "field \<Rightarrow> string" where
  "field_name fld_success = ''success''"
| "field_name fld_data = ''data''"
| "field_name fld_error = ''error''"
| "field_name fld_code = ''code''"
| "field_name fld_sid = ''sid''"
| "field_name fld_tasks = ''tasks''"

text \<open>
  The member read \<^verbatim>\<open>v.f\<close>. On \<^verbatim>\<open>undefined\<close> and \<^verbatim>\<open>null\<close> it throws a TypeError; on an
  object it is the member, or \<^verbatim>\<open>undefined\<close> when the object has none of that name; a
  boolean, number, string or array has none of the six members.
\<close>

fun get :: "jsval \<Rightarrow> field \<Rightarrow> reason + jsval" where
  "get JUndefined f = Inl TypeError"
| "get JNull f = Inl TypeError"
| "get (JObj kvs) f =
     Inr (case map_of kvs (field_name f) of None \<Rightarrow> JUndefined | Some v \<Rightarrow> v)"
| "get (JBool b) f = Inr JUndefined"
| "get (JNum i) f = Inr JUndefined"
| "get (JStr s) f = Inr JUndefined"
| "get (JArr vs) f = Inr JUndefined"

text \<open>The conversion to boolean that \<^verbatim>\<open>if (v)\<close> applies.\<close>

fun truthy :: "jsval \<Rightarrow> bool" where
  "truthy JUndefined = False"
| "truthy JNull = False"
| "truthy (JBool b) = b"
| "truthy (JNum i) = (i \<noteq> 0)"
| "truthy (JStr s) = (s \<noteq> [])"
| "truthy (JArr vs) = True"
| "truthy (JObj kvs) = True"

text \<open>A default parameter value: it replaces an argument that is absent or \<^verbatim>\<open>undefined\<close>.\<close>

definition dflt :: "jsval \<Rightarrow> jsval \<Rightarrow> jsval" where
  "dflt d v = (if v = JUndefined then d else v)"

text \<open>\<^verbatim>\<open>p.then(f)\<close>: a fulfilled promise runs the callback, whose exception rejects the
  result; a rejected one is passed on.\<close>

definition then_p :: "'a promise \<Rightarrow> ('a \<Rightarrow> reason + jsval) \<Rightarrow> jsval promise" where
  "then_p p f =
     (case p of
        Rejected e \<Rightarrow> Rejected e
      | Fulfilled r \<Rightarrow> (case f r of Inl e \<Rightarrow> Rejected e | Inr v \<Rightarrow> Fulfilled v))"

text \<open>\<^verbatim>\<open>p.catch(g)\<close>: a rejected promise runs the handler; a fulfilled one is passed on.\<close>

definition catch_p :: "jsval promise \<Rightarrow> (reason \<Rightarrow> reason + jsval) \<Rightarrow> jsval promise" where
  "catch_p p g =
     (case p of
        Fulfilled v \<Rightarrow> Fulfilled v
      | Rejected e \<Rightarrow> (case g e of Inl e' \<Rightarrow> Rejected e' | Inr v \<Rightarrow> Fulfilled v))"

text \<open>Every \<^verbatim>\<open>.catch\<close> handler of the class is \<^verbatim>\<open>console.log(error)\<close>, which returns
  nothing.\<close>

definition log_error :: "reason \<Rightarrow> reason + jsval" where
  "log_error e = Inr JUndefined"

section \<open>The URL object and the request\<close>

text \<open>The properties of a \<^verbatim>\<open>URL\<close> object that the class reads.\<close>

record URL =
  url_origin :: string
  url_protocol :: string
  url_host :: string
  url_hostname :: string
  url_port :: string

text \<open>
  \<^verbatim>\<open>new URL(s)\<close> belongs to the runtime. Its parser is a parameter \<open>parse\<close>, \<open>None\<close>
  being the TypeError it throws on a string that is no URL. One fact of the parser is
  fixed here: without a base, a string with no \<^verbatim>\<open>:\<close> has no scheme and is rejected.
\<close>

definition new_URL :: "(string \<Rightarrow> URL option) \<Rightarrow> string \<Rightarrow> URL option" where
  "new_URL parse s = (if CHR '':'' \<in> set s then parse s else None)"

text \<open>The object \<^verbatim>\<open>new URL("https://localhost:5001")\<close>.\<close>

definition default_URL :: URL where
  "default_URL =
     \<lparr>url_origin = ''https://localhost:5001'', url_protocol = ''https:'',
      url_host = ''localhost:5001'', url_hostname = ''localhost'', url_port = ''5001''\<rparr>"

text \<open>The request configuration handed to \<^verbatim>\<open>axios.request\<close>; \<open>rejectUnauthorized\<close> is the
  option of its \<^verbatim>\<open>httpsAgent\<close>.\<close>

record config =
  baseURL :: string
  url :: string
  params :: "(string \<times> jsval) list"
  rejectUnauthorized :: bool

record response =
  status :: int
  data :: jsval

text \<open>The transport: what \<^verbatim>\<open>axios.request\<close> settles with for a configuration.\<close>

type_synonym net = "config \<Rightarrow> response promise"

section \<open>The class Nas\<close>

text \<open>The instance: \<open>nas_url\<close> is the member \<^verbatim>\<open>_url\<close>, \<open>nas_sid\<close> the member \<^verbatim>\<open>_sid\<close>.\<close>

record nas =
  nas_url :: URL
  nas_sid :: jsval

text \<open>The constructor's argument: a \<^verbatim>\<open>URL\<close> instance or any other value (\<^verbatim>\<open>undefined\<close>
  when there is none).\<close>

datatype ctor_arg = URL_instance URL | Value jsval

datatype ctor_error = Invalid_URL

fun Nas_new :: "(string \<Rightarrow> URL option) \<Rightarrow> ctor_arg \<Rightarrow> ctor_error + nas" where
  "Nas_new parse (URL_instance u) = Inr \<lparr>nas_url = u, nas_sid = JStr ''''\<rparr>"
| "Nas_new parse (Value (JStr s)) =
     (case new_URL parse s of
        None \<Rightarrow> Inl Invalid_URL
      | Some u \<Rightarrow> Inr \<lparr>nas_url = u, nas_sid = JStr ''''\<rparr>)"
| "Nas_new parse (Value v) = Inr \<lparr>nas_url = default_URL, nas_sid = JStr ''''\<rparr>"

subsection \<open>info\<close>

definition info_config :: "nas \<Rightarrow> config" where
  "info_config n =
     \<lparr>baseURL = url_origin (nas_url n), url = ''/webapi/query.cgi'',
      params = [(''api'', JStr ''SYNO.API.Info''), (''version'', JNum 1),
                (''method'', JStr ''query''), (''query'', JStr ''all'')],
      rejectUnauthorized = False\<rparr>"

text \<open>
  The failure branch of info logs \<^verbatim>\<open>"API Error Code: " + response.data.error.code\<close>.
  The concatenation converts the code to a string, which throws a TypeError on an object
  with a member \<^verbatim>\<open>toString\<close> of its own (in a parsed body that member is no function)
  and on an array with such an element.
\<close>

fun concat_throws :: "jsval \<Rightarrow> bool" where
  "concat_throws (JObj kvs) = (map_of kvs ''toString'' \<noteq> None)"
| "concat_throws (JArr vs) = list_ex concat_throws vs"
| "concat_throws v = False"

definition info_then :: "response \<Rightarrow> reason + jsval" where
  "info_then r =
     (if status r = 200 then
        (case get (data r) fld_success of
           Inl e \<Rightarrow> Inl e
         | Inr s \<Rightarrow>
             if truthy s then get (data r) fld_data
             else (case get (data r) fld_error of
                     Inl e \<Rightarrow> Inl e
                   | Inr er \<Rightarrow> (case get er fld_code of
                                  Inl e \<Rightarrow> Inl e
                                | Inr c \<Rightarrow> if concat_throws c then Inl TypeError
                                           else Inr JUndefined)))
      else Inr JUndefined)"

definition info :: "net \<Rightarrow> nas \<Rightarrow> jsval promise \<times> nas" where
  "info net n = (catch_p (then_p (net (info_config n)) info_then) log_error, n)"

subsection \<open>login\<close>

definition login_config :: "nas \<Rightarrow> jsval \<Rightarrow> jsval \<Rightarrow> config" where
  "login_config n nas_username nas_password =
     \<lparr>baseURL = url_origin (nas_url n), url = ''/webapi/auth.cgi'',
      params = [(''api'', JStr ''SYNO.API.Auth''), (''version'', JNum 6),
                (''session'', JStr ''DownloadStation''), (''format'', JStr ''sid''),
                (''method'', JStr ''login''), (''account'', nas_username),
                (''passwd'', nas_password)],
      rejectUnauthorized = False\<rparr>"

text \<open>The callback of login assigns \<^verbatim>\<open>self._sid\<close>, so it takes the instance and returns
  it. The right-hand side \<^verbatim>\<open>response.data.data.sid\<close> is evaluated before the assignment:
  when it throws, nothing is assigned.\<close>

definition login_then :: "response \<Rightarrow> nas \<Rightarrow> (reason + jsval) \<times> nas" where
  "login_then r n =
     (if status r = 200 then
        (case get (data r) fld_success of
           Inl e \<Rightarrow> (Inl e, n)
         | Inr s \<Rightarrow>
             if truthy s then
               (case get (data r) fld_data of
                  Inl e \<Rightarrow> (Inl e, n)
                | Inr d \<Rightarrow> (case get d fld_sid of
                              Inl e \<Rightarrow> (Inl e, n)
                            | Inr v \<Rightarrow> (Inr (JBool True), n\<lparr>nas_sid := v\<rparr>)))
             else (case get (data r) fld_error of
                     Inl e \<Rightarrow> (Inl e, n)
                   | Inr er \<Rightarrow> (case get er fld_code of
                                  Inl e \<Rightarrow> (Inl e, n)
                                | Inr c \<Rightarrow> (Inr JUndefined, n))))
      else (Inr JUndefined, n))"

text \<open>\<^verbatim>\<open>p.then(f)\<close> for a callback that assigns to the instance.\<close>

definition then_st ::
  "'a promise \<Rightarrow> ('a \<Rightarrow> nas \<Rightarrow> (reason + jsval) \<times> nas) \<Rightarrow> nas \<Rightarrow> jsval promise \<times> nas" where
  "then_st p f n =
     (case p of
        Rejected e \<Rightarrow> (Rejected e, n)
      | Fulfilled r \<Rightarrow>
          (case f r n of
             (Inl e, n') \<Rightarrow> (Rejected e, n')
           | (Inr v, n') \<Rightarrow> (Fulfilled v, n')))"

definition login :: "net \<Rightarrow> nas \<Rightarrow> jsval \<Rightarrow> jsval \<Rightarrow> jsval promise \<times> nas" where
  "login net n nas_username nas_password =
     (case then_st (net (login_config n nas_username nas_password)) login_then n of
        (p, n') \<Rightarrow> (catch_p p log_error, n'))"

subsection \<open>logout\<close>

definition logout_config :: "nas \<Rightarrow> config" where
  "logout_config n =
     \<lparr>baseURL = url_origin (nas_url n), url = ''/webapi/auth.cgi'',
      params = [(''api'', JStr ''SYNO.API.Auth''), (''version'', JNum 1),
                (''session'', JStr ''DownloadStation''), (''method'', JStr ''logout'')],
      rejectUnauthorized = False\<rparr>"

definition logout_then :: "response \<Rightarrow> reason + jsval" where
  "logout_then r =
     (if status r = 200 then get (data r) fld_success else Inr JUndefined)"

definition logout :: "net \<Rightarrow> nas \<Rightarrow> jsval promise \<times> nas" where
  "logout net n = (catch_p (then_p (net (logout_config n)) logout_then) log_error, n)"

subsection \<open>getTaskList and getTaskInfo\<close>

text \<open>The parameters \<open>offset\<close> and \<open>limit\<close> have the defaults 0 and -1 and occur nowhere
  in the body.\<close>

definition getTaskList_config :: "nas \<Rightarrow> jsval \<Rightarrow> jsval \<Rightarrow> jsval \<Rightarrow> config" where
  "getTaskList_config n offset limit additional =
     (let offset = dflt (JNum 0) offset; limit = dflt (JNum (- 1)) limit;
          additional = dflt (JStr '''') additional
      in \<lparr>baseURL = url_origin (nas_url n), url = ''/webapi/DownloadStation/task.cgi'',
          params = [(''_sid'', nas_sid n), (''api'', JStr ''SYNO.DownloadStation.Task''),
                    (''version'', JNum 1), (''method'', JStr ''list''),
                    (''additional'', additional)],
          rejectUnauthorized = False\<rparr>)"

definition getTaskList_then :: "response \<Rightarrow> reason + jsval" where
  "getTaskList_then r =
     (if status r = 200 then
        (case get (data r) fld_success of
           Inl e \<Rightarrow> Inl e
         | Inr s \<Rightarrow>
             if truthy s then
               (case get (data r) fld_data of
                  Inl e \<Rightarrow> Inl e
                | Inr d \<Rightarrow> get d fld_tasks)
             else Inr JUndefined)
      else Inr JUndefined)"

definition getTaskList :: "net \<Rightarrow> nas \<Rightarrow> jsval \<Rightarrow> jsval \<Rightarrow> jsval \<Rightarrow> jsval promise \<times> nas" where
  "getTaskList net n offset limit additional =
     (catch_p (then_p (net (getTaskList_config n offset limit additional)) getTaskList_then)
        log_error, n)"

definition getTaskInfo_config :: "nas \<Rightarrow> jsval \<Rightarrow> jsval \<Rightarrow> config" where
  "getTaskInfo_config n ident additional =
     \<lparr>baseURL = url_origin (nas_url n), url = ''/webapi/DownloadStation/task.cgi'',
      params = [(''_sid'', nas_sid n), (''api'', JStr ''SYNO.DownloadStation.Task''),
                (''version'', JNum 1), (''method'', JStr ''getinfo''), (''id'', ident),
                (''additional'', dflt (JStr '''') additional)],
      rejectUnauthorized = False\<rparr>"

definition getTaskInfo_then :: "response \<Rightarrow> reason + jsval" where
  "getTaskInfo_then r =
     (if status r = 200 then
        (case get (data r) fld_success of
           Inl e \<Rightarrow> Inl e
         | Inr s \<Rightarrow> if truthy s then Inr (data r) else Inr JUndefined)
      else Inr JUndefined)"

definition getTaskInfo :: "net \<Rightarrow> nas \<Rightarrow> jsval \<Rightarrow> jsval \<Rightarrow> jsval promise \<times> nas" where
  "getTaskInfo net n ident additional =
     (catch_p (then_p (net (getTaskInfo_config n ident additional)) getTaskInfo_then)
        log_error, n)"

subsection \<open>createTask, deleteTask, pauseTask, resumeTask\<close>

text \<open>The four callbacks are the same function: the body on status 200, nothing
  otherwise.\<close>

definition body_then :: "response \<Rightarrow> reason + jsval" where
  "body_then r = (if status r = 200 then Inr (data r) else Inr JUndefined)"

definition createTask_config :: "nas \<Rightarrow> jsval \<Rightarrow> config" where
  "createTask_config n uri =
     \<lparr>baseURL = url_origin (nas_url n), url = ''/webapi/DownloadStation/task.cgi'',
      params = [(''_sid'', nas_sid n), (''api'', JStr ''SYNO.DownloadStation.Task''),
                (''version'', JNum 3), (''method'', JStr ''create''), (''uri'', uri)],
      rejectUnauthorized = False\<rparr>"

definition createTask :: "net \<Rightarrow> nas \<Rightarrow> jsval \<Rightarrow> jsval promise \<times> nas" where
  "createTask net n uri =
     (catch_p (then_p (net (createTask_config n uri)) body_then) log_error, n)"

definition deleteTask_config :: "nas \<Rightarrow> jsval \<Rightarrow> jsval \<Rightarrow> config" where
  "deleteTask_config n ident force_complete =
     \<lparr>baseURL = url_origin (nas_url n), url = ''/webapi/DownloadStation/task.cgi'',
      params = [(''_sid'', nas_sid n), (''api'', JStr ''SYNO.DownloadStation.Task''),
                (''version'', JNum 1), (''method'', JStr ''delete''), (''id'', ident),
                (''force_complete'', dflt (JBool False) force_complete)],
      rejectUnauthorized = False\<rparr>"

definition deleteTask :: "net \<Rightarrow> nas \<Rightarrow> jsval \<Rightarrow> jsval \<Rightarrow> jsval promise \<times> nas" where
  "deleteTask net n ident force_complete =
     (catch_p (then_p (net (deleteTask_config n ident force_complete)) body_then)
        log_error, n)"

definition pauseTask_config :: "nas \<Rightarrow> jsval \<Rightarrow> config" where
  "pauseTask_config n taskId =
     \<lparr>baseURL = url_origin (nas_url n), url = ''/webapi/DownloadStation/task.cgi'',
      params = [(''_sid'', nas_sid n), (''api'', JStr ''SYNO.DownloadStation.Task''),
                (''version'', JNum 1), (''method'', JStr ''pause''), (''id'', taskId)],
      rejectUnauthorized = False\<rparr>"

definition pauseTask :: "net \<Rightarrow> nas \<Rightarrow> jsval \<Rightarrow> jsval promise \<times> nas" where
  "pauseTask net n taskId =
     (catch_p (then_p (net (pauseTask_config n taskId)) body_then) log_error, n)"

definition resumeTask_config :: "nas \<Rightarrow> jsval \<Rightarrow> config" where
  "resumeTask_config n taskId =
     \<lparr>baseURL = url_origin (nas_url n), url = ''/webapi/DownloadStation/task.cgi'',
      params = [(''_sid'', nas_sid n), (''api'', JStr ''SYNO.DownloadStation.Task''),
                (''version'', JNum 1), (''method'', JStr ''resume''), (''id'', taskId)],
      rejectUnauthorized = False\<rparr>"

definition resumeTask :: "net \<Rightarrow> nas \<Rightarrow> jsval \<Rightarrow> jsval promise \<times> nas" where
  "resumeTask net n taskId =
     (catch_p (then_p (net (resumeTask_config n taskId)) body_then) log_error, n)"

subsection \<open>The accessors\<close>

definition host :: "nas \<Rightarrow> string" where
  "host n = url_host (nas_url n)"

definition portocol :: "nas \<Rightarrow> string" where
  "portocol n = url_protocol (nas_url n)"

definition hostname :: "nas \<Rightarrow> string" where
  "hostname n = url_hostname (nas_url n)"

definition port :: "nas \<Rightarrow> string" where
  "port n = url_port (nas_url n)"

text \<open>The getters the class declares, by the name each is declared under.\<close>

definition Nas_getters :: "(string \<times> (nas \<Rightarrow> string)) list" where
  "Nas_getters =
     [(''host'', host), (''portocol'', portocol), (''hostname'', hostname), (''port'', port)]"

text \<open>Reading the accessor named \<open>k\<close> of an instance; \<open>None\<close> when the class declares no
  getter of that name.\<close>

definition accessor :: "nas \<Rightarrow> string \<Rightarrow> string option" where
  "accessor n k = map_option (\<lambda>g. g n) (map_of Nas_getters k)"

section \<open>Vocabulary of the properties\<close>

text \<open>The member \<open>f\<close> of \<open>v\<close> where reading it does not throw, \<^verbatim>\<open>undefined\<close> where it
  does.\<close>

definition member :: "jsval \<Rightarrow> field \<Rightarrow> jsval" where
  "member v f = (case get v f of Inl e \<Rightarrow> JUndefined | Inr x \<Rightarrow> x)"

text \<open>The envelope reports success: it has a member \<^verbatim>\<open>success\<close> that converts to true.\<close>

definition envelope_success :: "jsval \<Rightarrow> bool" where
  "envelope_success b = (case get b fld_success of Inl e \<Rightarrow> False | Inr s \<Rightarrow> truthy s)"

definition nullish :: "jsval \<Rightarrow> bool" where
  "nullish v = (v = JUndefined \<or> v = JNull)"

fun is_string :: "jsval \<Rightarrow> bool" where
  "is_string (JStr s) = True"
| "is_string v = False"

text \<open>A transport that settles every request in the same way.\<close>

definition always :: "response promise \<Rightarrow> net" where
  "always p cfg = p"

text \<open>The client \<^verbatim>\<open>new Nas()\<close>.\<close>

definition default_nas :: nas where
  "default_nas = \<lparr>nas_url = default_URL, nas_sid = JStr ''''\<rparr>"

text \<open>The object that the runtime's parser makes of the URL in \<^verbatim>\<open>index.test.js\<close>.\<close>

definition test_URL :: URL where
  "test_URL =
     \<lparr>url_origin = ''https://192.168.1.241:5001'', url_protocol = ''https:'',
      url_host = ''192.168.1.241:5001'', url_hostname = ''192.168.1.241'',
      url_port = ''5001''\<rparr>"

text \<open>A parser known at that one string. It is applied to that string only, and to
  strings that \<open>new_URL\<close> rejects before it asks the parser.\<close>

definition test_parse :: "string \<Rightarrow> URL option" where
  "test_parse = [''https://192.168.1.241:5001'' \<mapsto> test_URL]"

text \<open>A transport that answers \<open>r\<close> to the requests whose parameter \<^verbatim>\<open>_sid\<close> is \<open>s\<close> and
  rejects every other request.\<close>

definition only_with_sid :: "jsval \<Rightarrow> response \<Rightarrow> net" where
  "only_with_sid s r cfg =
     (if map_of (params cfg) ''_sid'' = Some s then Fulfilled r
      else Rejected (TransportError ''no _sid''))"

section \<open>Reading members, settling promises\<close>

lemma get_Inl_iff: "(get v f = Inl e) = (nullish v \<and> e = TypeError)"
  by (cases v) (auto simp: nullish_def)

lemma get_member: "\<not> nullish v \<Longrightarrow> get v f = Inr (member v f)"
  by (cases v) (auto simp: nullish_def member_def)

lemma get_nullish: "nullish v \<Longrightarrow> get v f = Inl TypeError"
  by (simp add: get_Inl_iff)

lemma member_nullish: "nullish v \<Longrightarrow> member v f = JUndefined"
  by (cases v) (auto simp: nullish_def member_def)

lemma envelope_success_member:
  "envelope_success b = (\<not> nullish b \<and> truthy (member b fld_success))"
  by (cases b) (auto simp: nullish_def envelope_success_def member_def)

text \<open>A chain \<^verbatim>\<open>.then(f).catch(log)\<close> is always fulfilled: with the callback's value
  when the request is fulfilled and the callback returns, with \<^verbatim>\<open>undefined\<close> otherwise.\<close>

lemma settle:
  "catch_p (then_p p f) log_error =
     Fulfilled (case p of
                  Rejected e \<Rightarrow> JUndefined
                | Fulfilled r \<Rightarrow> (case f r of Inl e \<Rightarrow> JUndefined | Inr v \<Rightarrow> v))"
  by (simp add: catch_p_def then_p_def log_error_def split: promise.splits sum.splits)

lemma settle_body:
  "catch_p (then_p p body_then) log_error =
     Fulfilled (case p of
                  Rejected e \<Rightarrow> JUndefined
                | Fulfilled r \<Rightarrow> if status r = 200 then data r else JUndefined)"
  by (simp add: settle body_then_def split: promise.splits)

text \<open>The callbacks in closed form: which responses make them throw, and what they
  return on the others.\<close>

lemma getTaskList_then_cases:
  "getTaskList_then r =
     (if status r = 200 \<and> envelope_success (data r) then
        (if nullish (member (data r) fld_data) then Inl TypeError
         else Inr (member (member (data r) fld_data) fld_tasks))
      else if status r = 200 \<and> nullish (data r) then Inl TypeError
      else Inr JUndefined)"
proof (cases "nullish (data r)")
  case True
  then show ?thesis
    by (simp add: getTaskList_then_def envelope_success_member get_nullish)
next
  case False
  show ?thesis
    by (cases "nullish (member (data r) fld_data)")
       (simp_all add: getTaskList_then_def envelope_success_member get_member get_nullish
          False)
qed

lemma getTaskInfo_then_cases:
  "getTaskInfo_then r =
     (if status r = 200 \<and> envelope_success (data r) then Inr (data r)
      else if status r = 200 \<and> nullish (data r) then Inl TypeError
      else Inr JUndefined)"
  by (cases "nullish (data r)")
     (simp_all add: getTaskInfo_then_def envelope_success_member get_member get_nullish)

lemma login_then_cases:
  "login_then r n =
     (if status r = 200 \<and> envelope_success (data r) then
        (if nullish (member (data r) fld_data) then (Inl TypeError, n)
         else (Inr (JBool True),
               n\<lparr>nas_sid := member (member (data r) fld_data) fld_sid\<rparr>))
      else if status r = 200 \<and>
              (nullish (data r) \<or> nullish (member (data r) fld_error))
      then (Inl TypeError, n) else (Inr JUndefined, n))"
proof (cases "nullish (data r)")
  case True
  then show ?thesis
    by (simp add: login_then_def envelope_success_member get_nullish)
next
  case False
  show ?thesis
    by (cases "nullish (member (data r) fld_data)";
        cases "nullish (member (data r) fld_error)")
       (simp_all add: login_then_def envelope_success_member get_member get_nullish False)
qed

lemma login_eq:
  "login net n u p =
     (case net (login_config n u p) of
        Rejected e \<Rightarrow> (Fulfilled JUndefined, n)
      | Fulfilled r \<Rightarrow>
          if status r = 200 \<and> envelope_success (data r)
             \<and> \<not> nullish (member (data r) fld_data)
          then (Fulfilled (JBool True),
                n\<lparr>nas_sid := member (member (data r) fld_data) fld_sid\<rparr>)
          else (Fulfilled JUndefined, n))"
  by (simp add: login_def then_st_def login_then_cases catch_p_def log_error_def
           split: promise.splits)

section \<open>The request of getTaskList\<close>

text \<open>
  C1. For every offset, limit and additional value, the request that getTaskList builds
  has exactly the parameters \<^verbatim>\<open>_sid\<close>, \<^verbatim>\<open>api\<close>, \<^verbatim>\<open>version\<close>, \<^verbatim>\<open>method\<close>, \<^verbatim>\<open>additional\<close>, so neither
  \<^verbatim>\<open>offset\<close> nor \<^verbatim>\<open>limit\<close>; the request and the result are the same for any two offsets and
  limits.
\<close>

theorem getTaskList_ignores_offset_limit:
  "map fst (params (getTaskList_config n offset limit additional))
     = [''_sid'', ''api'', ''version'', ''method'', ''additional'']
   \<and> ''offset'' \<notin> fst ` set (params (getTaskList_config n offset limit additional))
   \<and> ''limit'' \<notin> fst ` set (params (getTaskList_config n offset limit additional))
   \<and> getTaskList_config n offset limit additional
       = getTaskList_config n offset' limit' additional
   \<and> getTaskList net n offset limit additional
       = getTaskList net n offset' limit' additional"
  by (simp add: getTaskList_config_def getTaskList_def Let_def)

section \<open>login and the session token\<close>

text \<open>
  C2, as stated, fails: a response with status 200 whose envelope is \<^verbatim>\<open>{success: true}\<close>,
  with no \<^verbatim>\<open>data\<close>, makes the callback throw at \<^verbatim>\<open>response.data.data.sid\<close>; the handler
  logs, login resolves \<^verbatim>\<open>undefined\<close> and the token stays what it was.
\<close>

theorem login_success_envelope_without_data:
  "status \<lparr>status = 200, data = JObj [(''success'', JBool True)]\<rparr> = 200
   \<and> get (data \<lparr>status = 200, data = JObj [(''success'', JBool True)]\<rparr>) fld_success
       = Inr (JBool True)
   \<and> login (always (Fulfilled \<lparr>status = 200, data = JObj [(''success'', JBool True)]\<rparr>))
        default_nas (JStr ''admin'') (JStr ''secret'')
       = (Fulfilled JUndefined, default_nas)"
  by (simp add: login_def then_st_def login_then_def catch_p_def log_error_def always_def)

text \<open>
  C2, amended. login resolves \<^verbatim>\<open>true\<close> exactly when the request is fulfilled with status
  200 by an envelope whose success flag converts to true and whose \<^verbatim>\<open>data\<close> is neither
  \<^verbatim>\<open>undefined\<close> nor \<^verbatim>\<open>null\<close>; it then stores \<^verbatim>\<open>data.sid\<close> as the session token and changes
  nothing else. In every other case (envelope failure, a success envelope without data,
  another status, a transport error) it resolves \<^verbatim>\<open>undefined\<close> and leaves the instance as
  it was.
\<close>

theorem login_outcome:
  "login net n nas_username nas_password =
     (case net (login_config n nas_username nas_password) of
        Rejected e \<Rightarrow> (Fulfilled JUndefined, n)
      | Fulfilled r \<Rightarrow>
          if status r = 200 \<and> envelope_success (data r)
             \<and> \<not> nullish (member (data r) fld_data)
          then (Fulfilled (JBool True),
                n\<lparr>nas_sid := member (member (data r) fld_data) fld_sid\<rparr>)
          else (Fulfilled JUndefined, n))"
  by (rule login_eq)

section \<open>The operations that leave the instance alone\<close>

text \<open>
  C3. info, logout, getTaskList, getTaskInfo, createTask, deleteTask, pauseTask and
  resumeTask return the instance they were called on, its URL and its session token
  unchanged, whatever the transport answers; so logout does not clear the token.
\<close>

theorem other_operations_keep_instance:
  "snd (info net n) = n
   \<and> snd (logout net n) = n
   \<and> snd (getTaskList net n offset limit additional) = n
   \<and> snd (getTaskInfo net n ident additional) = n
   \<and> snd (createTask net n uri) = n
   \<and> snd (deleteTask net n ident force_complete) = n
   \<and> snd (pauseTask net n taskId) = n
   \<and> snd (resumeTask net n taskId) = n
   \<and> nas_sid (snd (logout net n)) = nas_sid n"
  by (simp add: info_def logout_def getTaskList_def getTaskInfo_def createTask_def
        deleteTask_def pauseTask_def resumeTask_def)

section \<open>What the task operations resolve to\<close>

text \<open>
  C4. When the list request is fulfilled with status 200 by an envelope whose success
  flag converts to true, getTaskList resolves to the value \<^verbatim>\<open>data.tasks\<close> of that envelope,
  as it is (\<^verbatim>\<open>undefined\<close> where the envelope has no such value); when the envelope does
  not report success, it resolves \<^verbatim>\<open>undefined\<close>.
\<close>

theorem getTaskList_resolves_tasks:
  "(net (getTaskList_config n offset limit additional) = Fulfilled r
      \<and> status r = 200 \<and> envelope_success (data r)
    \<longrightarrow> fst (getTaskList net n offset limit additional)
          = Fulfilled (member (member (data r) fld_data) fld_tasks))
   \<and> (net (getTaskList_config n offset limit additional) = Fulfilled r
      \<and> \<not> envelope_success (data r)
    \<longrightarrow> fst (getTaskList net n offset limit additional) = Fulfilled JUndefined)"
  by (simp add: getTaskList_def settle getTaskList_then_cases member_nullish)

theorem getTaskList_resolves_tasks_witness:
  "fst (getTaskList
         (always (Fulfilled \<lparr>status = 200, data =
            JObj [(''success'', JBool True),
                  (''data'', JObj [(''total'', JNum 1),
                                   (''tasks'', JArr [JObj [(''id'', JStr ''dbid_1'')]])])]\<rparr>))
         default_nas JUndefined JUndefined JUndefined)
     = Fulfilled (JArr [JObj [(''id'', JStr ''dbid_1'')]])
   \<and> fst (getTaskList
         (always (Fulfilled \<lparr>status = 200, data =
            JObj [(''success'', JBool False), (''error'', JObj [(''code'', JNum 105)])]\<rparr>))
         default_nas JUndefined JUndefined JUndefined)
     = Fulfilled JUndefined"
  using getTaskList_resolves_tasks
      [where net = "always (Fulfilled \<lparr>status = 200, data =
            JObj [(''success'', JBool True),
                  (''data'', JObj [(''total'', JNum 1),
                                   (''tasks'', JArr [JObj [(''id'', JStr ''dbid_1'')]])])]\<rparr>)"
         and n = default_nas and offset = JUndefined and limit = JUndefined
         and additional = JUndefined
         and r = "\<lparr>status = 200, data =
            JObj [(''success'', JBool True),
                  (''data'', JObj [(''total'', JNum 1),
                                   (''tasks'', JArr [JObj [(''id'', JStr ''dbid_1'')]])])]\<rparr>"]
    getTaskList_resolves_tasks
      [where net = "always (Fulfilled \<lparr>status = 200, data =
            JObj [(''success'', JBool False), (''error'', JObj [(''code'', JNum 105)])]\<rparr>)"
         and n = default_nas and offset = JUndefined and limit = JUndefined
         and additional = JUndefined
         and r = "\<lparr>status = 200, data =
            JObj [(''success'', JBool False), (''error'', JObj [(''code'', JNum 105)])]\<rparr>"]
  by (simp add: always_def envelope_success_def member_def)

text \<open>
  C5. getTaskInfo resolves to the whole envelope, the body of the response, when the
  request is fulfilled with status 200 and the envelope's success flag converts to true;
  it resolves \<^verbatim>\<open>undefined\<close> on an envelope that does not report success, on another
  status and on a transport error.
\<close>

theorem getTaskInfo_resolves_envelope:
  "(net (getTaskInfo_config n ident additional) = Fulfilled r
      \<and> status r = 200 \<and> envelope_success (data r)
    \<longrightarrow> fst (getTaskInfo net n ident additional) = Fulfilled (data r))
   \<and> (net (getTaskInfo_config n ident additional) = Fulfilled r
      \<and> status r = 200 \<and> \<not> envelope_success (data r)
    \<longrightarrow> fst (getTaskInfo net n ident additional) = Fulfilled JUndefined)
   \<and> (net (getTaskInfo_config n ident additional) = Fulfilled r \<and> status r \<noteq> 200
    \<longrightarrow> fst (getTaskInfo net n ident additional) = Fulfilled JUndefined)
   \<and> (net (getTaskInfo_config n ident additional) = Rejected e
    \<longrightarrow> fst (getTaskInfo net n ident additional) = Fulfilled JUndefined)"
  by (simp add: getTaskInfo_def settle getTaskInfo_then_cases)

theorem getTaskInfo_resolves_envelope_witness:
  "fst (getTaskInfo
         (always (Fulfilled \<lparr>status = 200, data =
            JObj [(''success'', JBool True),
                  (''data'', JObj [(''tasks'', JArr [JObj [(''id'', JStr ''dbid_1'')]])])]\<rparr>))
         default_nas (JStr ''dbid_1'') JUndefined)
     = Fulfilled (JObj [(''success'', JBool True),
                  (''data'', JObj [(''tasks'', JArr [JObj [(''id'', JStr ''dbid_1'')]])])])
   \<and> fst (getTaskInfo
         (always (Fulfilled \<lparr>status = 200, data =
            JObj [(''success'', JBool False), (''error'', JObj [(''code'', JNum 404)])]\<rparr>))
         default_nas (JStr ''dbid_1'') JUndefined)
     = Fulfilled JUndefined
   \<and> fst (getTaskInfo (always (Fulfilled \<lparr>status = 500, data = JStr ''error''\<rparr>))
         default_nas (JStr ''dbid_1'') JUndefined)
     = Fulfilled JUndefined
   \<and> fst (getTaskInfo (always (Rejected (TransportError ''ECONNREFUSED'')))
         default_nas (JStr ''dbid_1'') JUndefined)
     = Fulfilled JUndefined"
  using getTaskInfo_resolves_envelope
      [where net = "always (Fulfilled \<lparr>status = 200, data =
            JObj [(''success'', JBool True),
                  (''data'', JObj [(''tasks'', JArr [JObj [(''id'', JStr ''dbid_1'')]])])]\<rparr>)"
         and n = default_nas and ident = "JStr ''dbid_1''" and additional = JUndefined
         and r = "\<lparr>status = 200, data =
            JObj [(''success'', JBool True),
                  (''data'', JObj [(''tasks'', JArr [JObj [(''id'', JStr ''dbid_1'')]])])]\<rparr>"
         and e = TypeError]
    getTaskInfo_resolves_envelope
      [where net = "always (Fulfilled \<lparr>status = 200, data =
            JObj [(''success'', JBool False), (''error'', JObj [(''code'', JNum 404)])]\<rparr>)"
         and n = default_nas and ident = "JStr ''dbid_1''" and additional = JUndefined
         and r = "\<lparr>status = 200, data =
            JObj [(''success'', JBool False), (''error'', JObj [(''code'', JNum 404)])]\<rparr>"
         and e = TypeError]
    getTaskInfo_resolves_envelope
      [where net = "always (Fulfilled \<lparr>status = 500, data = JStr ''error''\<rparr>)"
         and n = default_nas and ident = "JStr ''dbid_1''" and additional = JUndefined
         and r = "\<lparr>status = 500, data = JStr ''error''\<rparr>" and e = TypeError]
    getTaskInfo_resolves_envelope
      [where net = "always (Rejected (TransportError ''ECONNREFUSED''))"
         and n = default_nas and ident = "JStr ''dbid_1''" and additional = JUndefined
         and r = "\<lparr>status = 500, data = JStr ''error''\<rparr>"
         and e = "TransportError ''ECONNREFUSED''"]
  by (simp add: always_def envelope_success_def)

text \<open>
  C6. createTask, deleteTask, pauseTask and resumeTask each resolve to the body of the
  response, whatever it is, when the request is fulfilled with status 200, and to
  \<^verbatim>\<open>undefined\<close> on another status and on a transport error; the envelope's success flag
  is not looked at.
\<close>

theorem task_commands_resolve_body:
  "(net (createTask_config n uri) = Fulfilled r \<and> status r = 200
    \<longrightarrow> fst (createTask net n uri) = Fulfilled (data r))
   \<and> (net (deleteTask_config n ident force_complete) = Fulfilled r \<and> status r = 200
    \<longrightarrow> fst (deleteTask net n ident force_complete) = Fulfilled (data r))
   \<and> (net (pauseTask_config n taskId) = Fulfilled r \<and> status r = 200
    \<longrightarrow> fst (pauseTask net n taskId) = Fulfilled (data r))
   \<and> (net (resumeTask_config n taskId) = Fulfilled r \<and> status r = 200
    \<longrightarrow> fst (resumeTask net n taskId) = Fulfilled (data r))
   \<and> (net (createTask_config n uri) = Fulfilled r \<and> status r \<noteq> 200
    \<longrightarrow> fst (createTask net n uri) = Fulfilled JUndefined)
   \<and> (net (deleteTask_config n ident force_complete) = Fulfilled r \<and> status r \<noteq> 200
    \<longrightarrow> fst (deleteTask net n ident force_complete) = Fulfilled JUndefined)
   \<and> (net (pauseTask_config n taskId) = Fulfilled r \<and> status r \<noteq> 200
    \<longrightarrow> fst (pauseTask net n taskId) = Fulfilled JUndefined)
   \<and> (net (resumeTask_config n taskId) = Fulfilled r \<and> status r \<noteq> 200
    \<longrightarrow> fst (resumeTask net n taskId) = Fulfilled JUndefined)
   \<and> (net (createTask_config n uri) = Rejected e
    \<longrightarrow> fst (createTask net n uri) = Fulfilled JUndefined)
   \<and> (net (deleteTask_config n ident force_complete) = Rejected e
    \<longrightarrow> fst (deleteTask net n ident force_complete) = Fulfilled JUndefined)
   \<and> (net (pauseTask_config n taskId) = Rejected e
    \<longrightarrow> fst (pauseTask net n taskId) = Fulfilled JUndefined)
   \<and> (net (resumeTask_config n taskId) = Rejected e
    \<longrightarrow> fst (resumeTask net n taskId) = Fulfilled JUndefined)"
  by (simp add: createTask_def deleteTask_def pauseTask_def resumeTask_def settle_body)

theorem task_commands_resolve_body_witness:
  "fst (createTask
         (always (Fulfilled \<lparr>status = 200, data =
            JObj [(''success'', JBool False), (''error'', JObj [(''code'', JNum 105)])]\<rparr>))
         default_nas (JStr ''magnet:?xt=urn:btih:0''))
     = Fulfilled (JObj [(''success'', JBool False), (''error'', JObj [(''code'', JNum 105)])])
   \<and> fst (deleteTask
         (always (Fulfilled \<lparr>status = 200, data =
            JObj [(''success'', JBool False), (''error'', JObj [(''code'', JNum 105)])]\<rparr>))
         default_nas (JStr ''dbid_1'') JUndefined)
     = Fulfilled (JObj [(''success'', JBool False), (''error'', JObj [(''code'', JNum 105)])])
   \<and> fst (pauseTask
         (always (Fulfilled \<lparr>status = 200, data =
            JObj [(''success'', JBool False), (''error'', JObj [(''code'', JNum 105)])]\<rparr>))
         default_nas (JStr ''dbid_1''))
     = Fulfilled (JObj [(''success'', JBool False), (''error'', JObj [(''code'', JNum 105)])])
   \<and> fst (resumeTask
         (always (Fulfilled \<lparr>status = 200, data =
            JObj [(''success'', JBool False), (''error'', JObj [(''code'', JNum 105)])]\<rparr>))
         default_nas (JStr ''dbid_1''))
     = Fulfilled (JObj [(''success'', JBool False), (''error'', JObj [(''code'', JNum 105)])])
   \<and> fst (createTask (always (Fulfilled \<lparr>status = 204, data = JStr ''''\<rparr>))
         default_nas (JStr ''magnet:?xt=urn:btih:0''))
     = Fulfilled JUndefined
   \<and> fst (deleteTask (always (Fulfilled \<lparr>status = 204, data = JStr ''''\<rparr>))
         default_nas (JStr ''dbid_1'') JUndefined)
     = Fulfilled JUndefined
   \<and> fst (pauseTask (always (Fulfilled \<lparr>status = 204, data = JStr ''''\<rparr>))
         default_nas (JStr ''dbid_1''))
     = Fulfilled JUndefined
   \<and> fst (resumeTask (always (Fulfilled \<lparr>status = 204, data = JStr ''''\<rparr>))
         default_nas (JStr ''dbid_1''))
     = Fulfilled JUndefined
   \<and> fst (createTask (always (Rejected (TransportError ''ECONNREFUSED'')))
         default_nas (JStr ''magnet:?xt=urn:btih:0''))
     = Fulfilled JUndefined
   \<and> fst (deleteTask (always (Rejected (TransportError ''ECONNREFUSED'')))
         default_nas (JStr ''dbid_1'') JUndefined)
     = Fulfilled JUndefined
   \<and> fst (pauseTask (always (Rejected (TransportError ''ECONNREFUSED'')))
         default_nas (JStr ''dbid_1''))
     = Fulfilled JUndefined
   \<and> fst (resumeTask (always (Rejected (TransportError ''ECONNREFUSED'')))
         default_nas (JStr ''dbid_1''))
     = Fulfilled JUndefined"
  using task_commands_resolve_body
      [where net = "always (Fulfilled \<lparr>status = 200, data =
            JObj [(''success'', JBool False), (''error'', JObj [(''code'', JNum 105)])]\<rparr>)"
         and n = default_nas and uri = "JStr ''magnet:?xt=urn:btih:0''"
         and ident = "JStr ''dbid_1''" and force_complete = JUndefined
         and taskId = "JStr ''dbid_1''"
         and r = "\<lparr>status = 200, data =
            JObj [(''success'', JBool False), (''error'', JObj [(''code'', JNum 105)])]\<rparr>"
         and e = TypeError]
    task_commands_resolve_body
      [where net = "always (Fulfilled \<lparr>status = 204, data = JStr ''''\<rparr>)"
         and n = default_nas and uri = "JStr ''magnet:?xt=urn:btih:0''"
         and ident = "JStr ''dbid_1''" and force_complete = JUndefined
         and taskId = "JStr ''dbid_1''"
         and r = "\<lparr>status = 204, data = JStr ''''\<rparr>" and e = TypeError]
    task_commands_resolve_body
      [where net = "always (Rejected (TransportError ''ECONNREFUSED''))"
         and n = default_nas and uri = "JStr ''magnet:?xt=urn:btih:0''"
         and ident = "JStr ''dbid_1''" and force_complete = JUndefined
         and taskId = "JStr ''dbid_1''"
         and r = "\<lparr>status = 204, data = JStr ''''\<rparr>"
         and e = "TransportError ''ECONNREFUSED''"]
  by (simp add: always_def)

section \<open>Transport errors\<close>

text \<open>
  C7. When the transport rejects the request, each of the nine operations resolves
  \<^verbatim>\<open>undefined\<close>; and whatever the transport does, the promise an operation returns is
  never rejected, so no failure reaches the caller as an exception.
\<close>

theorem transport_rejection_resolves_undefined:
  "(net (info_config n) = Rejected e \<longrightarrow> fst (info net n) = Fulfilled JUndefined)
   \<and> (net (login_config n nas_username nas_password) = Rejected e
    \<longrightarrow> fst (login net n nas_username nas_password) = Fulfilled JUndefined)
   \<and> (net (logout_config n) = Rejected e \<longrightarrow> fst (logout net n) = Fulfilled JUndefined)
   \<and> (net (getTaskList_config n offset limit additional) = Rejected e
    \<longrightarrow> fst (getTaskList net n offset limit additional) = Fulfilled JUndefined)
   \<and> (net (getTaskInfo_config n ident additional) = Rejected e
    \<longrightarrow> fst (getTaskInfo net n ident additional) = Fulfilled JUndefined)
   \<and> (net (createTask_config n uri) = Rejected e
    \<longrightarrow> fst (createTask net n uri) = Fulfilled JUndefined)
   \<and> (net (deleteTask_config n ident force_complete) = Rejected e
    \<longrightarrow> fst (deleteTask net n ident force_complete) = Fulfilled JUndefined)
   \<and> (net (pauseTask_config n taskId) = Rejected e
    \<longrightarrow> fst (pauseTask net n taskId) = Fulfilled JUndefined)
   \<and> (net (resumeTask_config n taskId) = Rejected e
    \<longrightarrow> fst (resumeTask net n taskId) = Fulfilled JUndefined)
   \<and> fst (info net n) \<noteq> Rejected e'
   \<and> fst (login net n nas_username nas_password) \<noteq> Rejected e'
   \<and> fst (logout net n) \<noteq> Rejected e'
   \<and> fst (getTaskList net n offset limit additional) \<noteq> Rejected e'
   \<and> fst (getTaskInfo net n ident additional) \<noteq> Rejected e'
   \<and> fst (createTask net n uri) \<noteq> Rejected e'
   \<and> fst (deleteTask net n ident force_complete) \<noteq> Rejected e'
   \<and> fst (pauseTask net n taskId) \<noteq> Rejected e'
   \<and> fst (resumeTask net n taskId) \<noteq> Rejected e'"
proof -
  have l: "fst (login net n nas_username nas_password) \<noteq> Rejected e'"
    by (simp add: login_eq split: promise.splits)
  have r: "net (login_config n nas_username nas_password) = Rejected e
    \<longrightarrow> fst (login net n nas_username nas_password) = Fulfilled JUndefined"
    by (simp add: login_eq)
  show ?thesis
    using l r
    by (simp add: info_def logout_def getTaskList_def getTaskInfo_def createTask_def
          deleteTask_def pauseTask_def resumeTask_def settle)
qed

theorem transport_rejection_resolves_undefined_witness:
  "fst (info (always (Rejected (TransportError ''ECONNREFUSED''))) default_nas)
     = Fulfilled JUndefined
   \<and> fst (login (always (Rejected (TransportError ''ECONNREFUSED''))) default_nas
           (JStr ''admin'') (JStr ''secret''))
     = Fulfilled JUndefined
   \<and> fst (logout (always (Rejected (TransportError ''ECONNREFUSED''))) default_nas)
     = Fulfilled JUndefined
   \<and> fst (getTaskList (always (Rejected (TransportError ''ECONNREFUSED''))) default_nas
           (JNum 0) (JNum 10) (JStr ''detail''))
     = Fulfilled JUndefined
   \<and> fst (getTaskInfo (always (Rejected (TransportError ''ECONNREFUSED''))) default_nas
           (JStr ''dbid_1'') (JStr ''detail''))
     = Fulfilled JUndefined
   \<and> fst (createTask (always (Rejected (TransportError ''ECONNREFUSED''))) default_nas
           (JStr ''magnet:?xt=urn:btih:0''))
     = Fulfilled JUndefined
   \<and> fst (deleteTask (always (Rejected (TransportError ''ECONNREFUSED''))) default_nas
           (JStr ''dbid_1'') (JBool False))
     = Fulfilled JUndefined
   \<and> fst (pauseTask (always (Rejected (TransportError ''ECONNREFUSED''))) default_nas
           (JStr ''dbid_1''))
     = Fulfilled JUndefined
   \<and> fst (resumeTask (always (Rejected (TransportError ''ECONNREFUSED''))) default_nas
           (JStr ''dbid_1''))
     = Fulfilled JUndefined"
  using transport_rejection_resolves_undefined
      [where net = "always (Rejected (TransportError ''ECONNREFUSED''))"
         and n = default_nas and e = "TransportError ''ECONNREFUSED''"
         and nas_username = "JStr ''admin''" and nas_password = "JStr ''secret''"
         and offset = "JNum 0" and limit = "JNum 10" and additional = "JStr ''detail''"
         and ident = "JStr ''dbid_1''" and uri = "JStr ''magnet:?xt=urn:btih:0''"
         and force_complete = "JBool False" and taskId = "JStr ''dbid_1''"
         and e' = TypeError]
  by (simp add: always_def)

section \<open>The constructor and the accessors\<close>

text \<open>
  C8, as stated, fails for a malformed string: the constructor hands every string to
  \<^verbatim>\<open>new URL\<close>, which throws on one that is no URL, so no client is made.
\<close>

theorem constructor_throws_on_malformed_string:
  "Nas_new test_parse (Value (JStr ''not a url'')) = Inl Invalid_URL"
  by (simp add: new_URL_def)

text \<open>
  C8, amended. Constructing a client with no argument, or with a value that is neither
  a \<^verbatim>\<open>URL\<close> object nor a string, yields a client whose stored origin is
  \<^verbatim>\<open>https://localhost:5001\<close> and whose session token is the empty string; with a string
  that the URL parser rejects the constructor throws.
\<close>

theorem constructor_default:
  "Nas_new parse (Value JUndefined) = Inr default_nas
   \<and> (\<not> is_string v \<longrightarrow> Nas_new parse (Value v) = Inr default_nas)
   \<and> url_origin (nas_url default_nas) = ''https://localhost:5001''
   \<and> nas_sid default_nas = JStr ''''
   \<and> (new_URL parse s = None \<longrightarrow> Nas_new parse (Value (JStr s)) = Inl Invalid_URL)"
  by (cases v) (simp_all add: default_nas_def default_URL_def)

theorem constructor_default_witness:
  "Nas_new test_parse (Value (JNum 5001)) = Inr default_nas
   \<and> Nas_new test_parse (Value (JStr ''localhost'')) = Inl Invalid_URL"
  using constructor_default [where parse = test_parse and v = "JNum 5001"
      and s = "''localhost''"]
  by (simp add: new_URL_def)

text \<open>
  C9 does not hold of the code: the class declares the getters \<^verbatim>\<open>host\<close>, \<^verbatim>\<open>portocol\<close>,
  \<^verbatim>\<open>hostname\<close> and \<^verbatim>\<open>port\<close>. Each returns its component of the stored URL, but none is
  named \<^verbatim>\<open>protocol\<close>: on the client made from the URL of \<^verbatim>\<open>index.test.js\<close>, as on any
  other, reading \<^verbatim>\<open>protocol\<close> finds no accessor.
\<close>

theorem protocol_accessor_misspelt:
  "Nas_new test_parse (Value (JStr ''https://192.168.1.241:5001''))
     = Inr \<lparr>nas_url = test_URL, nas_sid = JStr ''''\<rparr>
   \<and> accessor \<lparr>nas_url = test_URL, nas_sid = JStr ''''\<rparr> ''protocol'' = None
   \<and> accessor \<lparr>nas_url = test_URL, nas_sid = JStr ''''\<rparr> ''portocol'' = Some ''https:''
   \<and> accessor n ''protocol'' = None
   \<and> accessor n ''host'' = Some (url_host (nas_url n))
   \<and> accessor n ''portocol'' = Some (url_protocol (nas_url n))
   \<and> accessor n ''hostname'' = Some (url_hostname (nas_url n))
   \<and> accessor n ''port'' = Some (url_port (nas_url n))"
  by (simp add: new_URL_def test_parse_def test_URL_def accessor_def Nas_getters_def
        host_def portocol_def hostname_def port_def)

section \<open>The session token in the requests\<close>

text \<open>
  C10. Each task operation (getTaskList, getTaskInfo, createTask, deleteTask, pauseTask,
  resumeTask) hands the transport one request, whose parameter \<^verbatim>\<open>_sid\<close> is the
  instance's session token, and resolves from the answer to that request; the token is
  the empty string on a client just constructed, and a login that does not resolve
  \<^verbatim>\<open>true\<close> leaves it what it was. logout hands the transport a request that has no
  parameter \<^verbatim>\<open>_sid\<close>.
\<close>

theorem task_requests_carry_sid:
  "(\<exists>c. map_of (params c) ''_sid'' = Some (nas_sid n)
        \<and> (\<forall>t. getTaskList t n offset limit additional
                 = (catch_p (then_p (t c) getTaskList_then) log_error, n)))
   \<and> (\<exists>c. map_of (params c) ''_sid'' = Some (nas_sid n)
        \<and> (\<forall>t. getTaskInfo t n ident additional
                 = (catch_p (then_p (t c) getTaskInfo_then) log_error, n)))
   \<and> (\<exists>c. map_of (params c) ''_sid'' = Some (nas_sid n)
        \<and> (\<forall>t. createTask t n uri = (catch_p (then_p (t c) body_then) log_error, n)))
   \<and> (\<exists>c. map_of (params c) ''_sid'' = Some (nas_sid n)
        \<and> (\<forall>t. deleteTask t n ident force_complete
                 = (catch_p (then_p (t c) body_then) log_error, n)))
   \<and> (\<exists>c. map_of (params c) ''_sid'' = Some (nas_sid n)
        \<and> (\<forall>t. pauseTask t n taskId = (catch_p (then_p (t c) body_then) log_error, n)))
   \<and> (\<exists>c. map_of (params c) ''_sid'' = Some (nas_sid n)
        \<and> (\<forall>t. resumeTask t n taskId = (catch_p (then_p (t c) body_then) log_error, n)))
   \<and> (\<exists>c. map_of (params c) ''_sid'' = None \<and> ''_sid'' \<notin> fst ` set (params c)
        \<and> (\<forall>t. logout t n = (catch_p (then_p (t c) logout_then) log_error, n)))
   \<and> map_of (params (getTaskList_config n offset limit additional)) ''_sid'' = Some (nas_sid n)
   \<and> map_of (params (getTaskInfo_config n ident additional)) ''_sid'' = Some (nas_sid n)
   \<and> map_of (params (createTask_config n uri)) ''_sid'' = Some (nas_sid n)
   \<and> map_of (params (deleteTask_config n ident force_complete)) ''_sid'' = Some (nas_sid n)
   \<and> map_of (params (pauseTask_config n taskId)) ''_sid'' = Some (nas_sid n)
   \<and> map_of (params (resumeTask_config n taskId)) ''_sid'' = Some (nas_sid n)
   \<and> map_of (params (logout_config n)) ''_sid'' = None
   \<and> ''_sid'' \<notin> fst ` set (params (logout_config n))
   \<and> (Nas_new parse a = Inr n \<longrightarrow> nas_sid n = JStr '''')
   \<and> (fst (login net n nas_username nas_password) \<noteq> Fulfilled (JBool True)
      \<longrightarrow> nas_sid (snd (login net n nas_username nas_password)) = nas_sid n)"
proof -
  have c1: "map_of (params (getTaskList_config n offset limit additional)) ''_sid''
              = Some (nas_sid n)"
    by (simp add: getTaskList_config_def Let_def)
  have c2: "map_of (params (getTaskInfo_config n ident additional)) ''_sid''
              = Some (nas_sid n)"
    by (simp add: getTaskInfo_config_def)
  have c3: "map_of (params (createTask_config n uri)) ''_sid'' = Some (nas_sid n)"
    by (simp add: createTask_config_def)
  have c4: "map_of (params (deleteTask_config n ident force_complete)) ''_sid''
              = Some (nas_sid n)"
    by (simp add: deleteTask_config_def)
  have c5: "map_of (params (pauseTask_config n taskId)) ''_sid'' = Some (nas_sid n)"
    by (simp add: pauseTask_config_def)
  have c6: "map_of (params (resumeTask_config n taskId)) ''_sid'' = Some (nas_sid n)"
    by (simp add: resumeTask_config_def)
  have c7: "map_of (params (logout_config n)) ''_sid'' = None"
    by (simp add: logout_config_def)
  have c8: "''_sid'' \<notin> fst ` set (params (logout_config n))"
    by (simp add: logout_config_def)
  have g1: "\<exists>c. map_of (params c) ''_sid'' = Some (nas_sid n)
        \<and> (\<forall>t. getTaskList t n offset limit additional
                 = (catch_p (then_p (t c) getTaskList_then) log_error, n))"
    using c1 by (intro exI [of _ "getTaskList_config n offset limit additional"])
      (simp add: getTaskList_def)
  have g2: "\<exists>c. map_of (params c) ''_sid'' = Some (nas_sid n)
        \<and> (\<forall>t. getTaskInfo t n ident additional
                 = (catch_p (then_p (t c) getTaskInfo_then) log_error, n))"
    using c2 by (intro exI [of _ "getTaskInfo_config n ident additional"])
      (simp add: getTaskInfo_def)
  have g3: "\<exists>c. map_of (params c) ''_sid'' = Some (nas_sid n)
        \<and> (\<forall>t. createTask t n uri = (catch_p (then_p (t c) body_then) log_error, n))"
    using c3 by (intro exI [of _ "createTask_config n uri"]) (simp add: createTask_def)
  have g4: "\<exists>c. map_of (params c) ''_sid'' = Some (nas_sid n)
        \<and> (\<forall>t. deleteTask t n ident force_complete
                 = (catch_p (then_p (t c) body_then) log_error, n))"
    using c4 by (intro exI [of _ "deleteTask_config n ident force_complete"])
      (simp add: deleteTask_def)
  have g5: "\<exists>c. map_of (params c) ''_sid'' = Some (nas_sid n)
        \<and> (\<forall>t. pauseTask t n taskId = (catch_p (then_p (t c) body_then) log_error, n))"
    using c5 by (intro exI [of _ "pauseTask_config n taskId"]) (simp add: pauseTask_def)
  have g6: "\<exists>c. map_of (params c) ''_sid'' = Some (nas_sid n)
        \<and> (\<forall>t. resumeTask t n taskId = (catch_p (then_p (t c) body_then) log_error, n))"
    using c6 by (intro exI [of _ "resumeTask_config n taskId"]) (simp add: resumeTask_def)
  have g7: "\<exists>c. map_of (params c) ''_sid'' = None \<and> ''_sid'' \<notin> fst ` set (params c)
        \<and> (\<forall>t. logout t n = (catch_p (then_p (t c) logout_then) log_error, n))"
    using c7 c8 by (intro exI [of _ "logout_config n"]) (simp add: logout_def)
  have f: "Nas_new parse a = Inr n \<longrightarrow> nas_sid n = JStr ''''"
    by (cases "(parse, a)" rule: Nas_new.cases) (auto split: option.splits)
  have l: "fst (login net n nas_username nas_password) \<noteq> Fulfilled (JBool True)
      \<longrightarrow> nas_sid (snd (login net n nas_username nas_password)) = nas_sid n"
    by (simp add: login_eq split: promise.splits)
  show ?thesis
    by (intro conjI g1 g2 g3 g4 g5 g6 g7 c1 c2 c3 c4 c5 c6 c7 c8 f l)
qed

theorem task_requests_carry_sid_witness:
  "Nas_new test_parse (Value JUndefined) = Inr default_nas
   \<and> getTaskList (only_with_sid (JStr '''') \<lparr>status = 200, data =
         JObj [(''success'', JBool True), (''data'', JObj [(''tasks'', JArr [])])]\<rparr>)
       default_nas JUndefined JUndefined JUndefined
       = (Fulfilled (JArr []), default_nas)
   \<and> getTaskInfo (only_with_sid (JStr '''') \<lparr>status = 200, data =
         JObj [(''success'', JBool True), (''data'', JObj [(''tasks'', JArr [])])]\<rparr>)
       default_nas (JStr ''dbid_1'') JUndefined
       = (Fulfilled (JObj [(''success'', JBool True),
                           (''data'', JObj [(''tasks'', JArr [])])]), default_nas)
   \<and> createTask (only_with_sid (JStr '''') \<lparr>status = 200, data =
         JObj [(''success'', JBool True), (''data'', JObj [(''tasks'', JArr [])])]\<rparr>)
       default_nas (JStr ''magnet:?xt=urn:btih:0'')
       = (Fulfilled (JObj [(''success'', JBool True),
                           (''data'', JObj [(''tasks'', JArr [])])]), default_nas)
   \<and> deleteTask (only_with_sid (JStr '''') \<lparr>status = 200, data =
         JObj [(''success'', JBool True), (''data'', JObj [(''tasks'', JArr [])])]\<rparr>)
       default_nas (JStr ''dbid_1'') JUndefined
       = (Fulfilled (JObj [(''success'', JBool True),
                           (''data'', JObj [(''tasks'', JArr [])])]), default_nas)
   \<and> pauseTask (only_with_sid (JStr '''') \<lparr>status = 200, data =
         JObj [(''success'', JBool True), (''data'', JObj [(''tasks'', JArr [])])]\<rparr>)
       default_nas (JStr ''dbid_1'')
       = (Fulfilled (JObj [(''success'', JBool True),
                           (''data'', JObj [(''tasks'', JArr [])])]), default_nas)
   \<and> resumeTask (only_with_sid (JStr '''') \<lparr>status = 200, data =
         JObj [(''success'', JBool True), (''data'', JObj [(''tasks'', JArr [])])]\<rparr>)
       default_nas (JStr ''dbid_1'')
       = (Fulfilled (JObj [(''success'', JBool True),
                           (''data'', JObj [(''tasks'', JArr [])])]), default_nas)
   \<and> logout (only_with_sid (JStr '''') \<lparr>status = 200, data =
         JObj [(''success'', JBool True), (''data'', JObj [(''tasks'', JArr [])])]\<rparr>)
       default_nas
       = (Fulfilled JUndefined, default_nas)
   \<and> map_of (params (createTask_config default_nas (JStr ''magnet:?xt=urn:btih:0'')))
       ''_sid'' = Some (JStr '''')
   \<and> map_of (params (getTaskList_config default_nas JUndefined JUndefined JUndefined))
       ''_sid'' = Some (JStr '''')
   \<and> fst (login (always (Rejected (TransportError ''ECONNREFUSED''))) default_nas
           (JStr ''admin'') (JStr ''secret'')) \<noteq> Fulfilled (JBool True)
   \<and> nas_sid (snd (login (always (Rejected (TransportError ''ECONNREFUSED''))) default_nas
           (JStr ''admin'') (JStr ''secret''))) = JStr ''''"
proof -
  define r where "r = \<lparr>status = 200, data =
     JObj [(''success'', JBool True), (''data'', JObj [(''tasks'', JArr [])])]\<rparr>"
  have f: "login (always (Rejected (TransportError ''ECONNREFUSED''))) default_nas
             (JStr ''admin'') (JStr ''secret'') = (Fulfilled JUndefined, default_nas)"
    by (simp add: login_def then_st_def catch_p_def log_error_def always_def)
  have d: "Nas_new test_parse (Value JUndefined) = Inr default_nas"
    by (simp add: default_nas_def)
  note t = task_requests_carry_sid [where parse = test_parse and a = "Value JUndefined"
      and n = default_nas and uri = "JStr ''magnet:?xt=urn:btih:0''"
      and offset = JUndefined and limit = JUndefined and additional = JUndefined
      and ident = "JStr ''dbid_1''" and force_complete = JUndefined
      and taskId = "JStr ''dbid_1''"
      and net = "always (Rejected (TransportError ''ECONNREFUSED''))"
      and nas_username = "JStr ''admin''" and nas_password = "JStr ''secret''"]
  from t d have s: "nas_sid default_nas = JStr ''''"
    by blast
  have y: "\<And>c f. map_of (params c) ''_sid'' = Some (nas_sid default_nas)
             \<Longrightarrow> catch_p (then_p (only_with_sid (JStr '''') r c) f) log_error
                 = Fulfilled (case f r of Inl e \<Rightarrow> JUndefined | Inr v \<Rightarrow> v)"
    by (simp add: only_with_sid_def settle s)
  have z: "\<And>c f. map_of (params c) ''_sid'' = None
             \<Longrightarrow> catch_p (then_p (only_with_sid (JStr '''') r c) f) log_error
                 = Fulfilled JUndefined"
    by (simp add: only_with_sid_def settle)
  have v1: "getTaskList_then r = Inr (JArr [])"
    by (simp add: getTaskList_then_def r_def)
  have v2: "getTaskInfo_then r = Inr (data r)"
    by (simp add: getTaskInfo_then_def r_def)
  have v3: "body_then r = Inr (data r)"
    by (simp add: body_then_def r_def)
  from t have o1: "getTaskList (only_with_sid (JStr '''') r) default_nas
       JUndefined JUndefined JUndefined = (Fulfilled (JArr []), default_nas)"
    using y v1 by auto
  from t have o2: "getTaskInfo (only_with_sid (JStr '''') r) default_nas
       (JStr ''dbid_1'') JUndefined = (Fulfilled (data r), default_nas)"
    using y v2 by auto
  from t have o3: "createTask (only_with_sid (JStr '''') r) default_nas
       (JStr ''magnet:?xt=urn:btih:0'') = (Fulfilled (data r), default_nas)"
    using y v3 by auto
  from t have o4: "deleteTask (only_with_sid (JStr '''') r) default_nas
       (JStr ''dbid_1'') JUndefined = (Fulfilled (data r), default_nas)"
    using y v3 by auto
  from t have o5: "pauseTask (only_with_sid (JStr '''') r) default_nas
       (JStr ''dbid_1'') = (Fulfilled (data r), default_nas)"
    using y v3 by auto
  from t have o6: "resumeTask (only_with_sid (JStr '''') r) default_nas
       (JStr ''dbid_1'') = (Fulfilled (data r), default_nas)"
    using y v3 by auto
  from t have o7: "logout (only_with_sid (JStr '''') r) default_nas
       = (Fulfilled JUndefined, default_nas)"
    using z by auto
  from t have k: "map_of (params (createTask_config default_nas
         (JStr ''magnet:?xt=urn:btih:0''))) ''_sid'' = Some (nas_sid default_nas)
     \<and> map_of (params (getTaskList_config default_nas JUndefined JUndefined JUndefined))
         ''_sid'' = Some (nas_sid default_nas)"
    by blast
  from d f s k o1 o2 o3 o4 o5 o6 o7 show ?thesis
    by (simp add: r_def)
qed

end
